theory Spec2Isabelle
  imports Main "HOL-Library.Word"
begin

unbundle bit_operations_syntax

section \<open>The inference server of src/ai/api/server.py\<close>

text \<open>
  The server is a FastAPI application: a login route that issues a signed, expiring
  token, and protected routes that validate the token (\<open>get_current_user\<close>), are rate
  limited (\<open>limiter.limit\<close>) and run a model (\<open>run_inference\<close>). Exceptions are values
  of a sum type, the module's globals are the fields of one record, the clock is an
  argument (whole seconds), and the mutable parts (the limiter's storage, the calls made
  to the model) are passed and returned explicitly.
\<close>

subsection \<open>Exceptions\<close>

text \<open>\<open>fastapi.HTTPException(status_code, detail, headers)\<close>; no headers is the empty list.\<close>

record HTTPException =
  status_code :: nat
  detail :: string
  headers :: "(string \<times> string) list"

text \<open>
  What the \<open>try\<close> block of \<open>run_inference\<close> can raise: an \<open>HTTPException\<close> of its own,
  or any other exception (of the model), kept as its message.
\<close>

datatype py_exception = HTTP HTTPException | Error string

text \<open>Decimal digits of a status code, for \<open>str(e)\<close>.\<close>

function str_nat :: "nat \<Rightarrow> string" where
  "str_nat n =
     (if n < 10 then [''0123456789'' ! n]
      else str_nat (n div 10) @ [''0123456789'' ! (n mod 10)])"
  by pat_completeness auto
termination
  by (relation "measure id") auto

declare str_nat.simps [simp del]

text \<open>
  \<open>str(e)\<close> of the caught exception: Starlette's \<open>HTTPException.__str__\<close> gives
  \<open>"{status_code}: {detail}"\<close>; any other exception gives its message.
\<close>

fun str_exc :: "py_exception \<Rightarrow> string" where
  "str_exc (HTTP e) = str_nat (status_code e) @ '': '' @ detail e"
| "str_exc (Error msg) = msg"

subsection \<open>Pydantic models\<close>

text \<open>
  A token as the server sees it. The JWT library (python-jose) is a dependency and not
  part of the repository, so the header and the claims of a token are kept in parsed
  form: a token is either a string that does not parse as a JWT, or the header's
  algorithm, the claims, and the text of the signature segment (the base64url characters
  as they stand in the token, one byte each). The claims the server writes and reads
  are \<open>sub\<close> and \<open>exp\<close> (seconds).
\<close>

type_synonym byte = "8 word"

record claims =
  sub :: "string option"
  exp :: "int option"

datatype jwt = Unparseable string | JWS string claims "byte list"

record Token =
  access_token :: jwt
  token_type :: string

record User =
  username :: string
  email :: "string option"
  full_name :: "string option"
  disabled :: "bool option"

record UserInDB = User +
  hashed_password :: string

text \<open>
  \<open>input_data: list[float]\<close>: the element type is a parameter, since only the length of
  the list is inspected by the server.
\<close>

record 'f InferenceRequest =
  input_data :: "'f list"
  model_version :: "string option"

text \<open>The dictionary \<open>{"prediction": ..., "model_version": ...}\<close> that \<open>run_inference\<close> returns.\<close>

record 'p InferenceResponse =
  prediction :: 'p
  response_model_version :: "string option"

subsection \<open>Module globals\<close>

text \<open>
  The values the module binds once at import: the signing key read from the environment,
  the user table, and the two library objects whose results the code branches on,
  \<open>pwd_context.verify\<close> (passlib) and the HS256 MAC of the JWT library, as functions.
\<close>

record globals =
  SECRET_KEY :: string
  fake_users_db :: "string \<rightharpoonup> UserInDB"
  pwd_context_verify :: "string \<Rightarrow> string \<Rightarrow> bool"
  hs256 :: "string \<Rightarrow> claims \<Rightarrow> byte list"

definition ALGORITHM :: string where
  "ALGORITHM = ''HS256''"

definition ACCESS_TOKEN_EXPIRE_MINUTES :: int where
  "ACCESS_TOKEN_EXPIRE_MINUTES = 30"

subsection \<open>The JWT library\<close>

text \<open>
  Numbers as digit lists, most significant digit first: \<open>digits b k n\<close> are the last
  \<open>k\<close> digits of \<open>n\<close> in base \<open>b\<close>, and \<open>number b ds\<close> is the number with the digits
  \<open>ds\<close>.
\<close>

fun digits :: "nat \<Rightarrow> nat \<Rightarrow> nat \<Rightarrow> nat list" where
  "digits b 0 n = []"
| "digits b (Suc k) n = digits b k (n div b) @ [n mod b]"

definition number :: "nat \<Rightarrow> nat list \<Rightarrow> nat" where
  "number b ds = foldl (\<lambda>acc d. b * acc + d) 0 ds"

text \<open>
  The base64url alphabet: \<open>A-Z\<close> are 0 to 25, \<open>a-z\<close> 26 to 51, \<open>0-9\<close> 52 to 61,
  \<open>-\<close> is 62 and \<open>_\<close> is 63; characters are ASCII codes.
\<close>

definition b64url_char :: "nat \<Rightarrow> byte" where
  "b64url_char v =
     (if v < 26 then of_nat (65 + v)
      else if v < 52 then of_nat (71 + v)
      else if v < 62 then of_nat (v - 4)
      else if v = 62 then 45
      else 95)"

definition b64url_value :: "byte \<Rightarrow> nat option" where
  "b64url_value c =
     (let n = unat c in
      if 65 \<le> n \<and> n \<le> 90 then Some (n - 65)
      else if 97 \<le> n \<and> n \<le> 122 then Some (n - 71)
      else if 48 \<le> n \<and> n \<le> 57 then Some (n + 4)
      else if n = 45 then Some 62
      else if n = 95 then Some 63
      else None)"

fun values_of :: "byte list \<Rightarrow> nat list option" where
  "values_of [] = Some []"
| "values_of (c # cs) =
     (case b64url_value c of
        None \<Rightarrow> None
      | Some v \<Rightarrow> (case values_of cs of None \<Rightarrow> None | Some vs \<Rightarrow> Some (v # vs)))"

text \<open>
  The text of a signature segment follows the JWT library (python-jose, which is not
  under src/, decoding with Python's \<open>base64\<close> module): it is the base64url text of the
  MAC, without padding.
  Encoding writes the bits of the bytes, filled up with zero bits to a multiple of six,
  six bits to a character. Decoding reads six bits from each character and drops the
  bits left over after the last whole byte, whatever they are; a text with a character
  outside the alphabet, or of a length that is 1 modulo 4, does not decode.
\<close>

definition base64url_encode :: "byte list \<Rightarrow> byte list" where
  "base64url_encode bs =
     (let m = length bs; n = (8 * m + 5) div 6
      in map b64url_char (digits 64 n (number 256 (map unat bs) * 2 ^ (6 * n - 8 * m))))"

definition base64url_decode :: "byte list \<Rightarrow> byte list option" where
  "base64url_decode text =
     (let n = length text; m = (6 * n) div 8
      in if n mod 4 = 1 then None
         else (case values_of text of
                 None \<Rightarrow> None
               | Some vs \<Rightarrow>
                   Some (map of_nat (digits 256 m (number 64 vs div 2 ^ (6 * n - 8 * m))))))"

text \<open>
  Modelled from the spec: \<open>jwt.encode\<close> and \<open>jwt.decode\<close> belong to python-jose, which is
  not under src/. Encoding signs the claims with the key (a symmetric MAC) and writes the
  MAC as the signature segment. Decoding fails when the token does not parse, names an
  algorithm that is not accepted, or has a signature segment that does not decode to the
  MAC of its claims under the key; a correctly signed token whose expiry has passed fails
  as expired; otherwise the claims are returned. A token without \<open>exp\<close> does not expire.
  The library raises the expiry error when \<open>exp < now\<close>, so a token is still accepted in
  the second of its expiry; the spec's wording (expired when \<open>now \<ge> exp\<close>) differs from
  the library at that one instant, and the comparison below is the library's.
\<close>

datatype jose_error = JWTError | ExpiredSignatureError

definition jwt_encode :: "globals \<Rightarrow> claims \<Rightarrow> string \<Rightarrow> string \<Rightarrow> jwt" where
  "jwt_encode g to_encode key algorithm =
     JWS algorithm to_encode (base64url_encode (hs256 g key to_encode))"

definition jwt_decode ::
  "globals \<Rightarrow> int \<Rightarrow> jwt \<Rightarrow> string \<Rightarrow> string list \<Rightarrow> jose_error + claims" where
  "jwt_decode g now token key algorithms =
     (case token of
        Unparseable s \<Rightarrow> Inl JWTError
      | JWS alg payload signature \<Rightarrow>
          if alg \<notin> set algorithms then Inl JWTError
          else if base64url_decode signature \<noteq> Some (hs256 g key payload) then Inl JWTError
          else
            (case exp payload of
               None \<Rightarrow> Inr payload
             | Some e \<Rightarrow> if e < now then Inl ExpiredSignatureError else Inr payload))"

subsection \<open>Authentication helpers\<close>

definition verify_password :: "globals \<Rightarrow> string \<Rightarrow> string \<Rightarrow> bool" where
  "verify_password g plain_password hashed = pwd_context_verify g plain_password hashed"

definition get_user :: "globals \<Rightarrow> string \<Rightarrow> UserInDB option" where
  "get_user g name = fake_users_db g name"

text \<open>\<open>return False\<close> is \<open>None\<close>; a user object is truthy.\<close>

definition authenticate_user :: "globals \<Rightarrow> string \<Rightarrow> string \<Rightarrow> UserInDB option" where
  "authenticate_user g name password =
     (case get_user g name of
        None \<Rightarrow> None
      | Some user \<Rightarrow>
          if \<not> verify_password g password (hashed_password user) then None
          else Some user)"

text \<open>\<open>datetime.utcnow()\<close> is the argument \<open>now\<close>, in seconds.\<close>

definition create_access_token :: "globals \<Rightarrow> int \<Rightarrow> claims \<Rightarrow> jwt" where
  "create_access_token g now data =
     (let expire = now + 60 * ACCESS_TOKEN_EXPIRE_MINUTES;
          to_encode = data\<lparr>exp := Some expire\<rparr>
      in jwt_encode g to_encode (SECRET_KEY g) ALGORITHM)"

definition credentials_exception :: HTTPException where
  "credentials_exception =
     \<lparr>status_code = 401, detail = ''Could not validate credentials'',
      headers = [(''WWW-Authenticate'', ''Bearer'')]\<rparr>"

definition inactive_user_exception :: HTTPException where
  "inactive_user_exception = \<lparr>status_code = 400, detail = ''Inactive user'', headers = []\<rparr>"

text \<open>\<open>if user.disabled\<close>: \<open>None\<close> and \<open>False\<close> are falsy.\<close>

definition truthy :: "bool option \<Rightarrow> bool" where
  "truthy b = (b = Some True)"

definition get_current_user :: "globals \<Rightarrow> int \<Rightarrow> jwt \<Rightarrow> HTTPException + UserInDB" where
  "get_current_user g now token =
     (case jwt_decode g now token (SECRET_KEY g) [ALGORITHM] of
        Inl err \<Rightarrow> Inl credentials_exception
      | Inr payload \<Rightarrow>
          (case sub payload of
             None \<Rightarrow> Inl credentials_exception
           | Some name \<Rightarrow>
               (case get_user g name of
                  None \<Rightarrow> Inl credentials_exception
                | Some user \<Rightarrow>
                    if truthy (disabled user) then Inl inactive_user_exception
                    else Inr user)))"

text \<open>The dependency chain \<open>Depends(get_current_user)\<close> is the first \<open>case\<close>.\<close>

definition get_current_active_user ::
  "globals \<Rightarrow> int \<Rightarrow> jwt \<Rightarrow> HTTPException + UserInDB" where
  "get_current_active_user g now token =
     (case get_current_user g now token of
        Inl e \<Rightarrow> Inl e
      | Inr current_user \<Rightarrow>
          if truthy (disabled current_user) then Inl inactive_user_exception
          else Inr current_user)"

subsection \<open>The login route\<close>

definition incorrect_login_exception :: HTTPException where
  "incorrect_login_exception =
     \<lparr>status_code = 401, detail = ''Incorrect username or password'',
      headers = [(''WWW-Authenticate'', ''Bearer'')]\<rparr>"

definition login_for_access_token ::
  "globals \<Rightarrow> int \<Rightarrow> string \<Rightarrow> string \<Rightarrow> HTTPException + Token" where
  "login_for_access_token g now form_username form_password =
     (case authenticate_user g form_username form_password of
        None \<Rightarrow> Inl incorrect_login_exception
      | Some user \<Rightarrow>
          Inr \<lparr>access_token =
                 create_access_token g now \<lparr>sub = Some (username user), exp = None\<rparr>,
               token_type = ''bearer''\<rparr>)"

subsection \<open>The model and the body of \<open>run_inference\<close>\<close>

text \<open>
  The global \<open>model\<close> is \<open>None\<close> when loading failed; otherwise calling it on the input
  either raises (\<open>Inl\<close> the message) or returns the prediction. The list of inputs the
  model has been called with is threaded through, most recent first, so that a theorem
  can say that the model was not invoked.
\<close>

type_synonym ('f, 'p) model = "('f list \<Rightarrow> string + 'p) option"

text \<open>The statements inside \<open>try:\<close> (lines 186 to 206), with what they raise as \<open>Inl\<close>.\<close>

definition try_block ::
  "('f, 'p) model \<Rightarrow> 'f InferenceRequest \<Rightarrow> 'f list list \<Rightarrow>
   (py_exception + 'p InferenceResponse) \<times> 'f list list" where
  "try_block model request calls =
     (case model of
        None \<Rightarrow>
          (Inl (HTTP \<lparr>status_code = 503, detail = ''AI model not loaded'', headers = []\<rparr>),
           calls)
      | Some m \<Rightarrow>
          if length (input_data request) \<noteq> 10 then
            (Inl (HTTP \<lparr>status_code = 400, detail = ''Input data must have 10 elements'',
                        headers = []\<rparr>),
             calls)
          else
            (case m (input_data request) of
               Inl msg \<Rightarrow> (Inl (Error msg), input_data request # calls)
             | Inr output \<Rightarrow>
                 (Inr \<lparr>prediction = output,
                       response_model_version = model_version request\<rparr>,
                  input_data request # calls)))"

text \<open>
  \<open>run_inference\<close> itself: \<open>except Exception as e\<close> catches whatever the block raised,
  an \<open>HTTPException\<close> included, and raises status 500 with \<open>str(e)\<close> in the detail.
\<close>

definition run_inference ::
  "('f, 'p) model \<Rightarrow> 'f InferenceRequest \<Rightarrow> UserInDB \<Rightarrow> 'f list list \<Rightarrow>
   (HTTPException + 'p InferenceResponse) \<times> 'f list list" where
  "run_inference model request current_user calls =
     (case try_block model request calls of
        (Inl e, calls') \<Rightarrow>
          (Inl \<lparr>status_code = 500, detail = ''Inference failed: '' @ str_exc e,
                headers = []\<rparr>,
           calls')
      | (Inr r, calls') \<Rightarrow> (Inr r, calls'))"

subsection \<open>The rate limiter\<close>

text \<open>
  Modelled from the spec: slowapi's \<open>Limiter\<close> is not under src/. \<open>TryAdmit\<close> is the
  fixed-window algorithm of the spec (section 4.3) for a limit \<open>L\<close> and a window of \<open>W\<close>
  seconds: a key with no window, or whose window has ended, gets a new window starting
  now with count 0; below the limit the count is incremented and the call admitted;
  otherwise the call is rejected with the time left in the window. The storage maps a
  key to its window.
\<close>

record RateWindow =
  window_start :: int
  count_in_window :: nat

datatype admission = Admitted | Rejected int

definition TryAdmit ::
  "nat \<Rightarrow> int \<Rightarrow> int \<Rightarrow> 'k \<Rightarrow> ('k \<rightharpoonup> RateWindow) \<Rightarrow> admission \<times> ('k \<rightharpoonup> RateWindow)" where
  "TryAdmit L W now k storage =
     (let w = (case storage k of
                 None \<Rightarrow> \<lparr>window_start = now, count_in_window = 0\<rparr>
               | Some w0 \<Rightarrow>
                   if now \<ge> window_start w0 + W
                   then \<lparr>window_start = now, count_in_window = 0\<rparr>
                   else w0)
      in if count_in_window w < L
         then (Admitted, storage(k \<mapsto> w\<lparr>count_in_window := count_in_window w + 1\<rparr>))
         else (Rejected (window_start w + W - now), storage(k \<mapsto> w)))"

text \<open>
  An HTTP request to the route: the address it comes from, the bearer token that
  \<open>oauth2_scheme\<close> hands to \<open>get_current_user\<close>, and the parsed body.
\<close>

record 'f request =
  client_host :: string
  bearer :: jwt
  json_body :: "'f InferenceRequest"

text \<open>\<open>Limiter(key_func=get_remote_address)\<close>: the limiter's key is the caller's address.\<close>

definition get_remote_address :: "'f request \<Rightarrow> string" where
  "get_remote_address r = client_host r"

text \<open>
  The object \<open>limiter\<close> of line 38 with the limit \<open>"5/minute"\<close> of line 179: checking a
  request takes the key from the key function and counts in the window of that key.
\<close>

definition limiter_check ::
  "int \<Rightarrow> 'f request \<Rightarrow> (string \<rightharpoonup> RateWindow) \<Rightarrow> admission \<times> (string \<rightharpoonup> RateWindow)" where
  "limiter_check now r storage = TryAdmit 5 60 now (get_remote_address r) storage"

text \<open>Checks of several requests, one after the other, each at its own time.\<close>

fun limiter_checks ::
  "(string \<rightharpoonup> RateWindow) \<Rightarrow> (int \<times> 'f request) list \<Rightarrow> admission list" where
  "limiter_checks storage [] = []"
| "limiter_checks storage ((now, r) # rest) =
     (case limiter_check now r storage of
        (a, storage') \<Rightarrow> a # limiter_checks storage' rest)"

subsection \<open>The protected route \<open>/inference\<close>\<close>

text \<open>The server's mutable state: the limiter's storage and the inputs the model was run on.\<close>

record 'f server_state =
  limiter_storage :: "string \<rightharpoonup> RateWindow"
  model_calls :: "'f list list"

text \<open>
  How a call ends: the route's return value; an \<open>HTTPException\<close>; the limiter's
  \<open>RateLimitExceeded\<close> (answered with status 429 by the handler registered at line 40),
  with the seconds left in the window; or any other exception, kept as its message,
  which \<open>unhandled_exception_handler\<close> (lines 228 to 234) answers with status 500.
\<close>

datatype 'r outcome =
  Returned 'r | Raised HTTPException | RateLimitExceeded int | Unhandled string

definition internal_server_error :: HTTPException where
  "internal_server_error =
     \<lparr>status_code = 500,
      detail = ''Internal server error occurred. Please try again later.'', headers = []\<rparr>"

fun status_of :: "'r outcome \<Rightarrow> nat" where
  "status_of (Returned r) = 200"
| "status_of (Raised e) = status_code e"
| "status_of (RateLimitExceeded retry_after) = 429"
| "status_of (Unhandled msg) = status_code internal_server_error"

text \<open>
  The wrapper that \<open>limiter.limit\<close> puts around the route function (slowapi's
  \<open>async_wrapper\<close>; the library is not under src/). It looks at the keyword argument
  named \<open>request\<close>: unless that is the HTTP request object (\<open>Inl\<close>) it raises a plain
  \<open>Exception\<close>, before any limit is checked; otherwise it checks the limit for the
  request and calls the function only when the limit is not exceeded.
\<close>

definition wrapper_error :: string where
  "wrapper_error = ''parameter request must be an instance of starlette.requests.Request''"

definition async_wrapper ::
  "int \<Rightarrow> ('f request + 'f InferenceRequest) \<Rightarrow>
   ('f list list \<Rightarrow> (HTTPException + 'r) \<times> 'f list list) \<Rightarrow>
   'f server_state \<Rightarrow> 'r outcome \<times> 'f server_state" where
  "async_wrapper now request func st =
     (case request of
        Inr body \<Rightarrow> (Unhandled wrapper_error, st)
      | Inl http_request \<Rightarrow>
          (case limiter_check now http_request (limiter_storage st) of
             (Rejected retry_after, storage) \<Rightarrow>
               (RateLimitExceeded retry_after, st\<lparr>limiter_storage := storage\<rparr>)
           | (Admitted, storage) \<Rightarrow>
               (case func (model_calls st) of
                  (Inl e, calls) \<Rightarrow>
                    (Raised e, \<lparr>limiter_storage = storage, model_calls = calls\<rparr>)
                | (Inr result, calls) \<Rightarrow>
                    (Returned result, \<lparr>limiter_storage = storage, model_calls = calls\<rparr>))))"

text \<open>
  The route as FastAPI runs it. The dependency \<open>Depends(get_current_active_user)\<close> is
  resolved first, and an exception it raises ends the call. Then the decorated function
  is called with its parameters as keyword arguments. \<open>run_inference\<close> declares
  \<open>request: InferenceRequest\<close> (line 181), so the argument named \<open>request\<close> is the parsed
  body (\<open>Inr\<close>), not the HTTP request.
\<close>

definition inference_route ::
  "globals \<Rightarrow> ('f, 'p) model \<Rightarrow> int \<Rightarrow> 'f server_state \<Rightarrow> 'f request \<Rightarrow>
   'p InferenceResponse outcome \<times> 'f server_state" where
  "inference_route g model now st r =
     (case get_current_active_user g now (bearer r) of
        Inl e \<Rightarrow> (Raised e, st)
      | Inr current_user \<Rightarrow>
          async_wrapper now (Inr (json_body r))
            (run_inference model (json_body r) current_user) st)"

text \<open>A sequence of calls, each at its own time, served one after the other.\<close>

fun serve ::
  "globals \<Rightarrow> ('f, 'p) model \<Rightarrow> 'f server_state \<Rightarrow> (int \<times> 'f request) list \<Rightarrow>
   'p InferenceResponse outcome list \<times> 'f server_state" where
  "serve g model st [] = ([], st)"
| "serve g model st ((now, r) # rest) =
     (case inference_route g model now st r of
        (out, st') \<Rightarrow> (case serve g model st' rest of (outs, st'') \<Rightarrow> (out # outs, st'')))"

subsection \<open>Mutating a token\<close>


subsection \<open>Example values\<close>

text \<open>
  Concrete globals for evaluating the definitions: the user of \<open>fake_users_db\<close>, a second
  active user, a disabled user, and stand-ins for the two library functions (what they
  compute does not matter to any theorem; only that they are functions).
\<close>

definition example_verify :: "string \<Rightarrow> string \<Rightarrow> bool" where
  "example_verify plain_password hashed = (hashed = ''hash:'' @ plain_password)"

definition example_hs256 :: "string \<Rightarrow> claims \<Rightarrow> byte list" where
  "example_hs256 key c =
     [of_nat (length key + length (case sub c of None \<Rightarrow> [] | Some s \<Rightarrow> s)),
      (case exp c of None \<Rightarrow> 0 | Some e \<Rightarrow> of_int e)]"

definition testuser :: UserInDB where
  "testuser =
     \<lparr>username = ''testuser'', email = Some ''testuser@example.com'',
      full_name = Some ''Test User'', disabled = Some False,
      hashed_password = ''hash:testpassword''\<rparr>"

definition alice :: UserInDB where
  "alice =
     \<lparr>username = ''alice'', email = None, full_name = None, disabled = Some False,
      hashed_password = ''hash:alicepassword''\<rparr>"

definition dormant :: UserInDB where
  "dormant =
     \<lparr>username = ''dormant'', email = None, full_name = None, disabled = Some True,
      hashed_password = ''hash:dormantpassword''\<rparr>"

definition example_globals :: globals where
  "example_globals =
     \<lparr>SECRET_KEY = ''your-secret-key-for-jwt-encryption'',
      fake_users_db = [''testuser'' \<mapsto> testuser, ''alice'' \<mapsto> alice, ''dormant'' \<mapsto> dormant],
      pwd_context_verify = example_verify,
      hs256 = example_hs256\<rparr>"

text \<open>A model that returns the number of inputs as its prediction.\<close>

definition example_model :: "(nat, nat) model" where
  "example_model = Some (\<lambda>xs. Inr (length xs))"

definition fresh_state :: "nat server_state" where
  "fresh_state = \<lparr>limiter_storage = Map.empty, model_calls = []\<rparr>"

text \<open>The token that a login of the named user at time \<open>t\<close> returns.\<close>

definition token_of :: "string \<Rightarrow> int \<Rightarrow> jwt" where
  "token_of name t = create_access_token example_globals t \<lparr>sub = Some name, exp = None\<rparr>"

definition example_request :: "string \<Rightarrow> jwt \<Rightarrow> nat list \<Rightarrow> nat request" where
  "example_request host token xs =
     \<lparr>client_host = host, bearer = token,
      json_body = \<lparr>input_data = xs, model_version = Some ''v1''\<rparr>\<rparr>"

text \<open>An input of the length the model takes.\<close>

definition ten :: "nat list" where
  "ten = [0, 1, 2, 3, 4, 5, 6, 7, 8, 9]"

section \<open>Properties\<close>

subsection \<open>Digits and base64url\<close>

lemma length_digits [simp]: "length (digits b k n) = k"
  by (induction k arbitrary: n) auto

lemma number_snoc: "number b (ds @ [d]) = b * number b ds + d"
  by (simp add: number_def)

lemma number_digits: "n < b ^ k \<Longrightarrow> number b (digits b k n) = n"
proof (induction k arbitrary: n)
  case 0
  then show ?case by (simp add: number_def)
next
  case (Suc k)
  from Suc.prems have "b \<noteq> 0" by (cases b) auto
  with Suc.prems have "n div b < b ^ k"
    by (simp add: less_mult_imp_div_less mult.commute)
  with Suc.IH have "number b (digits b k (n div b)) = n div b" .
  then show ?case by (simp add: number_snoc)
qed

lemma digits_number:
  "\<forall>d \<in> set ds. d < b \<Longrightarrow> digits b (length ds) (number b ds) = ds"
proof (induction ds rule: rev_induct)
  case Nil
  then show ?case by simp
next
  case (snoc d ds)
  then have d: "d < b" and ih: "digits b (length ds) (number b ds) = ds" by auto
  from d have "(b * number b ds + d) div b = number b ds"
    by (simp add: div_mult_self4)
  moreover from d have "(b * number b ds + d) mod b = d"
    by simp
  ultimately have "digits b (Suc (length ds)) (b * number b ds + d) = ds @ [d]"
    using ih by simp
  then show ?case by (simp add: number_snoc)
qed

lemma number_less: "\<forall>d \<in> set ds. d < b \<Longrightarrow> number b ds < b ^ length ds"
proof (induction ds rule: rev_induct)
  case Nil
  then show ?case by (simp add: number_def)
next
  case (snoc d ds)
  then have d: "d < b" and ih: "number b ds < b ^ length ds" by auto
  from ih have "number b ds + 1 \<le> b ^ length ds" by simp
  then have "b * (number b ds + 1) \<le> b * b ^ length ds" by (rule mult_le_mono2)
  with d show ?case by (simp add: number_snoc)
qed

lemma digits_less: "0 < b \<Longrightarrow> \<forall>d \<in> set (digits b k n). d < b"
  by (induction k arbitrary: n) auto

lemma unat_byte_less: "unat (w::byte) < 256"
  using unsigned_less [of w] by simp

lemma unat_byte_of_nat: "k < 256 \<Longrightarrow> unat (of_nat k :: byte) = k"
  by (simp add: unat_of_nat)

lemma b64url_value_char:
  assumes "v < 64"
  shows "b64url_value (b64url_char v) = Some v"
proof -
  consider "v < 26" | "26 \<le> v" "v < 52" | "52 \<le> v" "v < 62" | "v = 62" | "v = 63"
    using assms by linarith
  then show ?thesis
  proof cases
    case 1
    then have "b64url_char v = of_nat (65 + v)"
      by (simp add: b64url_char_def del: of_nat_add of_nat_diff)
    moreover from 1 have "unat (of_nat (65 + v) :: byte) = 65 + v"
      by (intro unat_byte_of_nat) simp
    ultimately have "unat (b64url_char v) = 65 + v"
      by (simp only:)
    with 1 show ?thesis by (auto simp: b64url_value_def Let_def)
  next
    case 2
    then have "b64url_char v = of_nat (71 + v)"
      by (simp add: b64url_char_def del: of_nat_add of_nat_diff)
    moreover from 2 have "unat (of_nat (71 + v) :: byte) = 71 + v"
      by (intro unat_byte_of_nat) simp
    ultimately have "unat (b64url_char v) = 71 + v"
      by (simp only:)
    with 2 show ?thesis by (auto simp: b64url_value_def Let_def)
  next
    case 3
    then have "b64url_char v = of_nat (v - 4)"
      by (simp add: b64url_char_def del: of_nat_add of_nat_diff)
    moreover from 3 have "unat (of_nat (v - 4) :: byte) = v - 4"
      by (intro unat_byte_of_nat) simp
    ultimately have "unat (b64url_char v) = v - 4"
      by (simp only:)
    with 3 show ?thesis by (auto simp: b64url_value_def Let_def)
  next
    case 4
    then show ?thesis by (simp add: b64url_char_def b64url_value_def)
  next
    case 5
    then show ?thesis by (simp add: b64url_char_def b64url_value_def)
  qed
qed

lemma values_of_chars:
  "\<forall>v \<in> set vs. v < 64 \<Longrightarrow> values_of (map b64url_char vs) = Some vs"
  by (induction vs) (simp_all add: b64url_value_char)

lemma base64url_roundtrip: "base64url_decode (base64url_encode bs) = Some bs"
proof -
  define m where "m = length bs"
  define n where "n = (8 * m + 5) div 6"
  define N where "N = number 256 (map unat bs)"
  define X where "X = N * 2 ^ (6 * n - 8 * m)"
  have len: "length (base64url_encode bs) = n"
    by (simp add: base64url_encode_def Let_def m_def n_def)
  have n1: "n mod 4 \<noteq> 1" unfolding n_def by presburger
  have m': "(6 * n) div 8 = m" unfolding n_def by presburger
  have ge: "8 * m \<le> 6 * n" unfolding n_def by presburger
  have bytes: "\<forall>d \<in> set (map unat bs). d < 256"
    by (auto simp: unat_byte_less)
  from number_less [OF bytes] have N: "N < 256 ^ m" by (simp add: N_def m_def)
  have "(256::nat) ^ m = 2 ^ (8 * m)" by (simp add: power_mult)
  with N have "X < 2 ^ (8 * m) * 2 ^ (6 * n - 8 * m)" by (simp add: X_def)
  also have "\<dots> = 2 ^ (6 * n)" using ge by (simp flip: power_add)
  also have "\<dots> = (64::nat) ^ n" by (simp add: power_mult)
  finally have X: "X < 64 ^ n" .
  have enc: "base64url_encode bs = map b64url_char (digits 64 n X)"
    by (simp add: base64url_encode_def Let_def m_def n_def N_def X_def)
  have vals: "values_of (base64url_encode bs) = Some (digits 64 n X)"
    unfolding enc by (rule values_of_chars) (simp add: digits_less)
  have num: "number 64 (digits 64 n X) = X" using X by (rule number_digits)
  have shifted: "X div 2 ^ (6 * n - 8 * m) = N" by (simp add: X_def)
  have dig: "digits 256 m N = map unat bs"
    using digits_number [OF bytes] by (simp add: N_def m_def)
  have "base64url_decode (base64url_encode bs) =
      Some (map of_nat (digits 256 ((6 * n) div 8)
        (number 64 (digits 64 n X) div 2 ^ (6 * n - 8 * ((6 * n) div 8)))))"
    unfolding base64url_decode_def Let_def len vals using n1 by (simp only: if_False option.case)
  also have "\<dots> = Some (map of_nat (map unat bs))"
    unfolding m' num shifted dig ..
  also have "\<dots> = Some bs"
    by (simp add: comp_def)
  finally show ?thesis .
qed



subsection \<open>Evaluation lemmas\<close>

lemma str_nat_400: "str_nat 400 = ''400''"
  by (simp add: str_nat.simps [of 400] str_nat.simps [of 40] str_nat.simps [of 4])

lemma run_inference_wrong_length:
  "length (input_data request) \<noteq> 10 \<Longrightarrow>
   run_inference (Some m) request current_user calls =
     (Inl \<lparr>status_code = 500,
           detail = ''Inference failed: 400: Input data must have 10 elements'',
           headers = []\<rparr>, calls)"
  by (simp add: run_inference_def try_block_def str_nat_400)

lemma run_inference_example:
  "run_inference example_model \<lparr>input_data = ten, model_version = v\<rparr> u calls =
     (Inr \<lparr>prediction = 10, response_model_version = v\<rparr>, ten # calls)"
  by (simp add: run_inference_def try_block_def example_model_def ten_def)

lemma get_current_user_decoded:
  "jwt_decode g now token (SECRET_KEY g) [ALGORITHM] = Inr payload \<Longrightarrow>
   sub payload = Some name \<Longrightarrow>
   get_current_user g now token =
     (case get_user g name of
        None \<Rightarrow> Inl credentials_exception
      | Some user \<Rightarrow>
          if truthy (disabled user) then Inl inactive_user_exception else Inr user)"
  by (simp add: get_current_user_def)

lemma jwt_decode_issued:
  "jwt_decode g t' (create_access_token g t data) (SECRET_KEY g) [ALGORITHM] =
     (if t + 1800 < t' then Inl ExpiredSignatureError else Inr (data\<lparr>exp := Some (t + 1800)\<rparr>))"
  by (simp add: jwt_decode_def create_access_token_def jwt_encode_def
      ACCESS_TOKEN_EXPIRE_MINUTES_def Let_def base64url_roundtrip)

lemma get_current_user_issued:
  "get_current_user g t' (create_access_token g t \<lparr>sub = Some name, exp = None\<rparr>) =
     (if t + 1800 < t' then Inl credentials_exception
      else (case get_user g name of
              None \<Rightarrow> Inl credentials_exception
            | Some user \<Rightarrow>
                if truthy (disabled user) then Inl inactive_user_exception else Inr user))"
  by (simp add: get_current_user_def jwt_decode_issued)

lemma jwt_decode_token_of:
  "t' \<le> t + 1800 \<Longrightarrow>
   jwt_decode example_globals t' (token_of name t) (SECRET_KEY example_globals) [ALGORITHM] =
     Inr \<lparr>sub = Some name, exp = Some (t + 1800)\<rparr>"
  by (simp add: token_of_def jwt_decode_issued)

lemma get_user_example:
  "get_user example_globals ''testuser'' = Some testuser"
  "get_user example_globals ''alice'' = Some alice"
  "get_user example_globals ''dormant'' = Some dormant"
  "get_user example_globals ''nobody'' = None"
  by (simp_all add: get_user_def example_globals_def)

lemma truthy_example:
  "\<not> truthy (disabled testuser)" "\<not> truthy (disabled alice)" "truthy (disabled dormant)"
  by (simp_all add: truthy_def testuser_def alice_def dormant_def)


lemma login_dormant:
  "login_for_access_token example_globals 100 ''dormant'' ''dormantpassword'' =
     Inr \<lparr>access_token = token_of ''dormant'' 100, token_type = ''bearer''\<rparr>"
  by (simp add: login_for_access_token_def authenticate_user_def get_user_example
      verify_password_def token_of_def)
    (simp add: example_globals_def example_verify_def dormant_def)

lemma jwt_decode_example_expired:
  "jwt_decode example_globals 5000 (token_of ''testuser'' 100) (SECRET_KEY example_globals)
     [ALGORITHM] = Inl ExpiredSignatureError"
  by (simp add: token_of_def jwt_decode_issued)

lemma jwt_decode_unparseable:
  "jwt_decode g now (Unparseable s) key algorithms = Inl JWTError"
  by (simp add: jwt_decode_def)

lemma get_current_user_unparseable:
  "get_current_user g now (Unparseable s) = Inl credentials_exception"
  by (simp add: get_current_user_def jwt_decode_unparseable)

lemma jwt_decode_users_update:
  "jwt_decode (g\<lparr>fake_users_db := d\<rparr>) now token (SECRET_KEY g) algs =
   jwt_decode g now token (SECRET_KEY g) algs"
  by (simp add: jwt_decode_def split: jwt.splits)

lemma get_current_active_user_error:
  "get_current_user g now token = Inl e \<Longrightarrow> get_current_active_user g now token = Inl e"
  by (simp add: get_current_active_user_def)

lemma inference_route_auth_error:
  "get_current_active_user g now (bearer r) = Inl e \<Longrightarrow>
   inference_route g model now st r = (Raised e, st)"
  by (simp add: inference_route_def)

lemma get_current_active_user_example:
  "t' \<le> t + 1800 \<Longrightarrow>
   get_current_active_user example_globals t' (token_of ''testuser'' t) = Inr testuser"
  "t' \<le> t + 1800 \<Longrightarrow>
   get_current_active_user example_globals t' (token_of ''alice'' t) = Inr alice"
  by (simp_all add: get_current_active_user_def token_of_def get_current_user_issued
      get_user_example truthy_example)

lemma inference_route_authenticated:
  "get_current_active_user g now (bearer r) = Inr u \<Longrightarrow>
   inference_route g model now st r = (Unhandled wrapper_error, st)"
  by (simp add: inference_route_def async_wrapper_def)

lemma serve_Cons:
  "serve g model st ((now, r) # rest) =
     (fst (inference_route g model now st r) #
        fst (serve g model (snd (inference_route g model now st r)) rest),
      snd (serve g model (snd (inference_route g model now st r)) rest))"
  by (simp split: prod.splits)

lemma TryAdmit_open:
  "storage k = Some \<lparr>window_start = s, count_in_window = c\<rparr> \<Longrightarrow> now < s + W \<Longrightarrow>
   TryAdmit L W now k storage =
     (if c < L then (Admitted, storage(k \<mapsto> \<lparr>window_start = s, count_in_window = Suc c\<rparr>))
      else (Rejected (s + W - now), storage(k \<mapsto> \<lparr>window_start = s, count_in_window = c\<rparr>)))"
  by (simp add: TryAdmit_def)

lemma limiter_checks_Cons:
  "limiter_checks storage ((now, r) # rest) =
     fst (limiter_check now r storage) # limiter_checks (snd (limiter_check now r storage)) rest"
  by (simp split: prod.splits)







subsection \<open>Claims\<close>

text \<open>
  C1. A call whose payload does not have exactly 10 elements should end with status 400.
  \<open>run_inference\<close> raises the 400 inside its \<open>try\<close> block, and the \<open>except Exception\<close> of
  the same function catches it and raises status 500 instead: entered with three
  numbers, the function ends with status 500 and the 400 only in the detail, while with
  ten numbers it returns the prediction. The model is not called on the three numbers.
\<close>

theorem C1_three_elements_status_500:
  "run_inference example_model \<lparr>input_data = [1, 2, 3], model_version = Some ''v1''\<rparr>
     testuser [] =
   (Inl \<lparr>status_code = 500,
         detail = ''Inference failed: 400: Input data must have 10 elements'',
         headers = []\<rparr>, []) \<and>
   run_inference example_model \<lparr>input_data = ten, model_version = Some ''v1''\<rparr>
     testuser [] =
   (Inr \<lparr>prediction = 10, response_model_version = Some ''v1''\<rparr>, [ten])"
  by (simp add: run_inference_example)
    (simp add: example_model_def run_inference_wrong_length)

text \<open>
  C2 (as amended). A login fails with the 401 error "Incorrect username or password"
  whenever the name is absent from the user table or the password does not match the
  stored hash, with the identical error in both cases; and a login fails only in these
  two cases. \<open>authenticate_user\<close> does not read the \<open>disabled\<close> flag.
\<close>

theorem C2_login_fails_alike:
  "(get_user g name = None \<or>
    (\<exists>user. get_user g name = Some user \<and> \<not> verify_password g password (hashed_password user))
    \<longrightarrow> login_for_access_token g now name password = Inl incorrect_login_exception)
   \<and> (\<forall>e. login_for_access_token g now name password = Inl e \<longrightarrow>
          e = incorrect_login_exception \<and>
          (get_user g name = None \<or>
           (\<exists>user. get_user g name = Some user \<and>
              \<not> verify_password g password (hashed_password user))))"
  by (auto simp: login_for_access_token_def authenticate_user_def split: option.splits)

theorem C2_login_fails_alike_witness:
  "login_for_access_token example_globals 100 ''nobody'' ''testpassword'' =
     Inl incorrect_login_exception \<and>
   login_for_access_token example_globals 100 ''testuser'' ''wrongpassword'' =
     Inl incorrect_login_exception"
proof -
  have absent: "get_user example_globals ''nobody'' = None"
    by (simp add: get_user_def example_globals_def)
  have mismatch:
    "\<exists>user. get_user example_globals ''testuser'' = Some user \<and>
       \<not> verify_password example_globals ''wrongpassword'' (hashed_password user)"
    by (simp add: get_user_def example_globals_def verify_password_def example_verify_def
        testuser_def)
  from absent mismatch
    C2_login_fails_alike [of example_globals "''nobody''" "''testpassword''" 100]
    C2_login_fails_alike [of example_globals "''testuser''" "''wrongpassword''" 100]
  show ?thesis by blast
qed

text \<open>
  The claim as stated also lists a disabled record among the failures. A disabled user
  with the right password is given a token by the login route; the flag is checked only
  when the token is used.
\<close>

theorem C2_disabled_login_counterexample:
  "get_user example_globals ''dormant'' = Some dormant \<and>
   disabled dormant = Some True \<and>
   login_for_access_token example_globals 100 ''dormant'' ''dormantpassword'' =
     Inr \<lparr>access_token = token_of ''dormant'' 100, token_type = ''bearer''\<rparr>"
  by (simp add: login_for_access_token_def authenticate_user_def get_user_def
      example_globals_def verify_password_def example_verify_def dormant_def token_of_def)

text \<open>
  C3 (as amended). The token issued for an identity at time \<open>t\<close> expires 1800 seconds
  (30 minutes) later. For an identity that is in the user table and not disabled it
  validates, returning the identity's record, at every time up to and including
  \<open>t + 1800\<close>; at every time after \<open>t + 1800\<close> it fails with the 401 credentials error,
  whatever the identity. Up to \<open>t + 1800\<close> the token of a disabled identity fails with
  "Inactive user", and the token of an identity that is not in the table fails with the
  401 credentials error at every time.
\<close>

theorem C3_token_lifetime:
  "(get_user g name = Some user \<and> \<not> truthy (disabled user) \<and> t' \<le> t + 1800 \<longrightarrow>
      get_current_user g t' (create_access_token g t \<lparr>sub = Some name, exp = None\<rparr>) =
        Inr user)
   \<and> (t + 1800 < t' \<longrightarrow>
      get_current_user g t' (create_access_token g t \<lparr>sub = Some name, exp = None\<rparr>) =
        Inl credentials_exception)
   \<and> (get_user g name = Some user \<and> truthy (disabled user) \<and> t' \<le> t + 1800 \<longrightarrow>
      get_current_user g t' (create_access_token g t \<lparr>sub = Some name, exp = None\<rparr>) =
        Inl inactive_user_exception)
   \<and> (get_user g name = None \<longrightarrow>
      get_current_user g t' (create_access_token g t \<lparr>sub = Some name, exp = None\<rparr>) =
        Inl credentials_exception)
   \<and> 60 * ACCESS_TOKEN_EXPIRE_MINUTES = 1800"
  by (simp add: get_current_user_issued ACCESS_TOKEN_EXPIRE_MINUTES_def)

theorem C3_token_lifetime_witness:
  "get_current_user example_globals 100 (token_of ''testuser'' 100) = Inr testuser \<and>
   get_current_user example_globals 1900 (token_of ''testuser'' 100) = Inr testuser \<and>
   get_current_user example_globals 1901 (token_of ''testuser'' 100) =
     Inl credentials_exception \<and>
   get_current_user example_globals 100 (token_of ''dormant'' 100) =
     Inl inactive_user_exception \<and>
   get_current_user example_globals 100 (token_of ''nobody'' 100) = Inl credentials_exception"
proof -
  have 1: "get_current_user example_globals 100 (token_of ''testuser'' 100) = Inr testuser"
    using C3_token_lifetime [of example_globals "''testuser''" testuser 100 100]
      get_user_example(1) truthy_example(1) by (simp add: token_of_def)
  have 2: "get_current_user example_globals 1900 (token_of ''testuser'' 100) = Inr testuser"
    using C3_token_lifetime [of example_globals "''testuser''" testuser 1900 100]
      get_user_example(1) truthy_example(1) by (simp add: token_of_def)
  have 3: "get_current_user example_globals 1901 (token_of ''testuser'' 100) =
      Inl credentials_exception"
    using C3_token_lifetime [of example_globals "''testuser''" testuser 1901 100]
    by (simp add: token_of_def)
  have 4: "get_current_user example_globals 100 (token_of ''dormant'' 100) =
      Inl inactive_user_exception"
    using C3_token_lifetime [of example_globals "''dormant''" dormant 100 100]
      get_user_example(3) truthy_example(3) by (simp add: token_of_def)
  have 5: "get_current_user example_globals 100 (token_of ''nobody'' 100) =
      Inl credentials_exception"
    using C3_token_lifetime [of example_globals "''nobody''" _ 100 100]
      get_user_example(4) by (simp add: token_of_def)
  from 1 2 3 4 5 show ?thesis by simp
qed

text \<open>
  The claim as stated is for every identity, and has the token fail from \<open>t + 1800\<close> on.
  The login route issues a token to the disabled user \<open>dormant\<close> at time 100; presented
  at once, it does not validate. The token issued to \<open>testuser\<close> at time 100 still
  validates at time 1900.
\<close>

theorem C3_disabled_identity_counterexample:
  "login_for_access_token example_globals 100 ''dormant'' ''dormantpassword'' =
     Inr \<lparr>access_token = token_of ''dormant'' 100, token_type = ''bearer''\<rparr> \<and>
   (100::int) \<le> 100 \<and> (100::int) < 100 + 1800 \<and>
   get_current_user example_globals 100 (token_of ''dormant'' 100) = Inl inactive_user_exception \<and>
   (1900::int) \<ge> 100 + 1800 \<and>
   get_current_user example_globals 1900 (token_of ''testuser'' 100) = Inr testuser"
  by (simp add: login_dormant token_of_def get_current_user_issued get_user_example
      truthy_example)

text \<open>
  C4 (as amended). Whenever decoding the token fails, whatever the kind (it does not
  parse, its signature does not verify, or it is well-formed, correctly signed and
  expired), \<open>get_current_user\<close> fails with the one 401 error
  "Could not validate credentials".
\<close>

theorem C4_decode_errors_alike:
  "jwt_decode g now token (SECRET_KEY g) [ALGORITHM] = Inl err \<Longrightarrow>
   get_current_user g now token = Inl credentials_exception"
  by (simp add: get_current_user_def)

theorem C4_decode_errors_alike_witness:
  "get_current_user example_globals 5000 (token_of ''testuser'' 100) = Inl credentials_exception"
  using C4_decode_errors_alike [OF jwt_decode_example_expired] .

text \<open>
  The claim as stated has two failure kinds that the returned error tells apart. An
  expired token and an unparseable one fail differently inside the library and get the
  same error from \<open>get_current_user\<close>.
\<close>

theorem C4_expired_like_malformed_counterexample:
  "jwt_decode example_globals 5000 (token_of ''testuser'' 100) (SECRET_KEY example_globals)
     [ALGORITHM] = Inl ExpiredSignatureError \<and>
   jwt_decode example_globals 5000 (Unparseable ''junk'') (SECRET_KEY example_globals)
     [ALGORITHM] = Inl JWTError \<and>
   get_current_user example_globals 5000 (token_of ''testuser'' 100) =
   get_current_user example_globals 5000 (Unparseable ''junk'')"
  by (simp add: jwt_decode_example_expired jwt_decode_unparseable get_current_user_def)

text \<open>
  C5. With limit 5 and window 60 seconds, the first five calls within a window should be
  admitted and the sixth rejected with a positive time to wait. On the route no call
  reaches the limiter: the wrapper of \<open>limiter.limit\<close> is handed the parsed body as
  \<open>request\<close> and raises before checking any limit. Six calls of \<open>testuser\<close> from one
  address within six seconds all end with the unhandled exception (status 500), the
  sixth like the first five, and the limiter's storage is still empty.
\<close>

theorem C5_six_calls_none_limited:
  "serve example_globals example_model fresh_state
     [(100, example_request ''10.0.0.1'' (token_of ''testuser'' 100) ten),
      (101, example_request ''10.0.0.1'' (token_of ''testuser'' 100) ten),
      (102, example_request ''10.0.0.1'' (token_of ''testuser'' 100) ten),
      (103, example_request ''10.0.0.1'' (token_of ''testuser'' 100) ten),
      (104, example_request ''10.0.0.1'' (token_of ''testuser'' 100) ten),
      (105, example_request ''10.0.0.1'' (token_of ''testuser'' 100) ten)] =
   ([Unhandled wrapper_error, Unhandled wrapper_error, Unhandled wrapper_error,
     Unhandled wrapper_error, Unhandled wrapper_error, Unhandled wrapper_error],
    fresh_state) \<and>
   status_of (Unhandled wrapper_error :: nat InferenceResponse outcome) = 500"
  by (simp add: serve_Cons inference_route_authenticated get_current_active_user_example
      example_request_def internal_server_error_def del: serve.simps(2))

text \<open>
  C6 (as amended). The limiter's key is the address a request comes from
  (\<open>get_remote_address\<close>), not the identity of its token. A check of a request by the
  limiter depends on the request only through its address, so requests from one address
  are counted together whichever tokens they carry; a check changes the window of no
  other address; and an admitted check within an open window adds one to the count of
  the window of the request's address.
\<close>

theorem C6_limiter_keyed_by_address:
  "(get_remote_address r1 = get_remote_address r2 \<longrightarrow>
      limiter_check now r1 storage = limiter_check now r2 storage)
   \<and> (\<forall>h. h \<noteq> get_remote_address r \<longrightarrow> snd (limiter_check now r storage) h = storage h)
   \<and> (storage (get_remote_address r) = Some \<lparr>window_start = s, count_in_window = c\<rparr> \<and>
       now < s + 60 \<and> c < 5 \<longrightarrow>
         limiter_check now r storage =
           (Admitted,
            storage(get_remote_address r \<mapsto> \<lparr>window_start = s, count_in_window = Suc c\<rparr>)))"
  by (simp add: limiter_check_def TryAdmit_open) (simp add: TryAdmit_def Let_def)

theorem C6_limiter_keyed_by_address_witness:
  "limiter_check 130
     (example_request ''10.0.0.1'' (token_of ''testuser'' 100) ten)
     [''10.0.0.1'' \<mapsto> \<lparr>window_start = 100, count_in_window = 1\<rparr>] =
   limiter_check 130
     (example_request ''10.0.0.1'' (token_of ''alice'' 120) [])
     [''10.0.0.1'' \<mapsto> \<lparr>window_start = 100, count_in_window = 1\<rparr>] \<and>
   snd (limiter_check 130
     (example_request ''10.0.0.1'' (token_of ''testuser'' 100) ten)
     [''10.0.0.1'' \<mapsto> \<lparr>window_start = 100, count_in_window = 1\<rparr>]) ''10.0.0.2'' = None \<and>
   limiter_check 130
     (example_request ''10.0.0.1'' (token_of ''testuser'' 100) ten)
     [''10.0.0.1'' \<mapsto> \<lparr>window_start = 100, count_in_window = 1\<rparr>] =
   (Admitted, [''10.0.0.1'' \<mapsto> \<lparr>window_start = 100, count_in_window = 2\<rparr>])"
proof -
  let ?r1 = "example_request ''10.0.0.1'' (token_of ''testuser'' 100) ten"
  let ?r2 = "example_request ''10.0.0.1'' (token_of ''alice'' 120) []"
  let ?st = "[''10.0.0.1'' \<mapsto> \<lparr>window_start = 100, count_in_window = 1\<rparr>]"
  have k: "get_remote_address ?r1 = get_remote_address ?r2"
    by (simp add: get_remote_address_def example_request_def)
  have a: "get_remote_address ?r1 = ''10.0.0.1''"
    by (simp add: get_remote_address_def example_request_def)
  have h: "''10.0.0.2'' \<noteq> get_remote_address ?r1"
    by (simp add: a)
  have w: "?st (get_remote_address ?r1) = Some \<lparr>window_start = 100, count_in_window = 1\<rparr> \<and>
      (130::int) < 100 + 60 \<and> (1::nat) < 5"
    by (simp add: a)
  from C6_limiter_keyed_by_address [of ?r1 ?r2 130 ?st ?r1 100 1] k h w
  have "limiter_check 130 ?r1 ?st = limiter_check 130 ?r2 ?st"
    and "snd (limiter_check 130 ?r1 ?st) ''10.0.0.2'' = ?st ''10.0.0.2''"
    and "limiter_check 130 ?r1 ?st =
      (Admitted, ?st(get_remote_address ?r1 \<mapsto> \<lparr>window_start = 100, count_in_window = Suc 1\<rparr>))"
    by blast+
  then show ?thesis by (simp add: a numeral_2_eq_2)
qed

text \<open>
  The claim as stated has the identity as the key. Checked by the limiter one after the
  other, five requests of \<open>testuser\<close> from one address use up the window, and the first
  request of \<open>alice\<close> from that address is rejected: two identities share a counter. A
  sixth request of \<open>testuser\<close> from a second address is admitted: one identity has two
  counters.
\<close>

theorem C6_shared_counter_counterexample:
  "''testuser'' \<noteq> ''alice'' \<and>
   limiter_checks Map.empty
     [(100, example_request ''10.0.0.1'' (token_of ''testuser'' 100) ten),
      (101, example_request ''10.0.0.1'' (token_of ''testuser'' 100) ten),
      (102, example_request ''10.0.0.1'' (token_of ''testuser'' 100) ten),
      (103, example_request ''10.0.0.1'' (token_of ''testuser'' 100) ten),
      (104, example_request ''10.0.0.1'' (token_of ''testuser'' 100) ten),
      (105, example_request ''10.0.0.1'' (token_of ''alice'' 105) ten)] =
     [Admitted, Admitted, Admitted, Admitted, Admitted, Rejected 55] \<and>
   limiter_checks Map.empty
     [(100, example_request ''10.0.0.1'' (token_of ''testuser'' 100) ten),
      (101, example_request ''10.0.0.1'' (token_of ''testuser'' 100) ten),
      (102, example_request ''10.0.0.1'' (token_of ''testuser'' 100) ten),
      (103, example_request ''10.0.0.1'' (token_of ''testuser'' 100) ten),
      (104, example_request ''10.0.0.1'' (token_of ''testuser'' 100) ten),
      (105, example_request ''10.0.0.2'' (token_of ''testuser'' 100) ten)] =
     [Admitted, Admitted, Admitted, Admitted, Admitted, Admitted]"
  by (simp add: limiter_checks_Cons limiter_check_def get_remote_address_def
      example_request_def TryAdmit_def del: limiter_checks.simps(2))

text \<open>
  C7. The route should run token validation, then the limiter, then \<open>run_inference\<close>. A
  call whose token does not validate ends with the credentials error and an unchanged
  state, as the claim says. A call with a valid token goes no further than the wrapper
  of \<open>limiter.limit\<close>, which raises because its \<open>request\<close> argument is the parsed body:
  the call ends with the unhandled exception (status 500), the limiter is not consulted
  and \<open>run_inference\<close> is not entered, so the stages after validation never run.
\<close>

theorem C7_stops_after_validation:
  "inference_route example_globals example_model 100 fresh_state
     (example_request ''10.0.0.1'' (Unparseable ''junk'') ten) =
     (Raised credentials_exception, fresh_state) \<and>
   inference_route example_globals example_model 100 fresh_state
     (example_request ''10.0.0.1'' (token_of ''testuser'' 100) ten) =
     (Unhandled wrapper_error, fresh_state)"
proof -
  have "get_current_active_user example_globals 100
      (bearer (example_request ''10.0.0.1'' (Unparseable ''junk'') ten)) =
      Inl credentials_exception"
    by (simp add: example_request_def get_current_active_user_error
        get_current_user_unparseable)
  moreover have "get_current_active_user example_globals 100
      (bearer (example_request ''10.0.0.1'' (token_of ''testuser'' 100) ten)) = Inr testuser"
    by (simp add: example_request_def get_current_active_user_example)
  ultimately show ?thesis
    by (simp add: inference_route_auth_error inference_route_authenticated)
qed




text \<open>
  C9. Validation consults the user table: a correctly signed, unexpired token whose
  identity is not in the table fails with the 401 credentials error, the same error as
  for a token that does not parse; the same token at the same time validates once the
  table holds an active record under that name, so the result is not a function of the
  token alone.
\<close>

theorem C9_store_consulted:
  assumes "jwt_decode g now token (SECRET_KEY g) [ALGORITHM] = Inr payload"
    and "sub payload = Some name"
    and "get_user g name = None"
  shows "get_current_user g now token = Inl credentials_exception
       \<and> get_current_user g now token = get_current_user g now (Unparseable s)
       \<and> status_code credentials_exception = 401
       \<and> (\<not> truthy (disabled user) \<longrightarrow>
            get_current_user (g\<lparr>fake_users_db := (fake_users_db g)(name \<mapsto> user)\<rparr>) now token
              = Inr user)"
  using assms
  by (simp add: get_current_user_unparseable)
    (simp add: get_current_user_def jwt_decode_users_update get_user_def
      credentials_exception_def)

theorem C9_store_consulted_witness:
  "get_current_user example_globals 200 (token_of ''nobody'' 100) = Inl credentials_exception \<and>
   get_current_user example_globals 200 (token_of ''nobody'' 100) =
     get_current_user example_globals 200 (Unparseable ''junk'') \<and>
   get_current_user
     (example_globals\<lparr>fake_users_db := (fake_users_db example_globals)(''nobody'' \<mapsto> alice)\<rparr>)
     200 (token_of ''nobody'' 100) = Inr alice"
proof -
  have d: "jwt_decode example_globals 200 (token_of ''nobody'' 100) (SECRET_KEY example_globals)
     [ALGORITHM] = Inr \<lparr>sub = Some ''nobody'', exp = Some (100 + 1800)\<rparr>"
    by (rule jwt_decode_token_of) simp
  have s: "sub \<lparr>sub = Some ''nobody'', exp = Some (100 + 1800)\<rparr> = Some ''nobody''" by simp
  from C9_store_consulted [OF d s get_user_example(4), of "''junk''" alice] truthy_example(2)
  show ?thesis by blast
qed

text \<open>
  C10. A protected call with a correctly signed, unexpired token of an identity whose
  record is disabled ends with the error "Inactive user", status 400 (the credentials
  error has status 401), whatever the request body is, and leaves the state as it was:
  the limiter is not touched and the model is not called.
\<close>

theorem C10_inactive_user:
  assumes "jwt_decode g now (bearer r) (SECRET_KEY g) [ALGORITHM] = Inr payload"
    and "sub payload = Some name"
    and "get_user g name = Some user"
    and "truthy (disabled user)"
  shows "inference_route g model now st (r\<lparr>json_body := b\<rparr>) = (Raised inactive_user_exception, st)
       \<and> status_code inactive_user_exception = 400
       \<and> detail inactive_user_exception = ''Inactive user''
       \<and> status_code credentials_exception = 401"
proof -
  from assms have "get_current_user g now (bearer r) = Inl inactive_user_exception"
    by (simp add: get_current_user_decoded)
  then have "get_current_active_user g now (bearer (r\<lparr>json_body := b\<rparr>)) =
      Inl inactive_user_exception"
    by (simp add: get_current_active_user_error)
  then have "inference_route g model now st (r\<lparr>json_body := b\<rparr>) =
      (Raised inactive_user_exception, st)"
    by (rule inference_route_auth_error)
  then show ?thesis
    by (simp add: inactive_user_exception_def credentials_exception_def)
qed

theorem C10_inactive_user_witness:
  "inference_route example_globals example_model 200 fresh_state
     (example_request ''10.0.0.1'' (token_of ''dormant'' 100) [0, 1, 2, 3, 4, 5, 6, 7, 8, 9]) =
   (Raised inactive_user_exception, fresh_state)"
proof -
  let ?r = "example_request ''10.0.0.1'' (token_of ''dormant'' 100) []"
  have d: "jwt_decode example_globals 200 (bearer ?r) (SECRET_KEY example_globals)
     [ALGORITHM] = Inr \<lparr>sub = Some ''dormant'', exp = Some (100 + 1800)\<rparr>"
    by (simp add: example_request_def jwt_decode_token_of)
  have s: "sub \<lparr>sub = Some ''dormant'', exp = Some (100 + 1800)\<rparr> = Some ''dormant''" by simp
  from C10_inactive_user [OF d s get_user_example(3) truthy_example(3),
      of example_model fresh_state
        "\<lparr>input_data = [0, 1, 2, 3, 4, 5, 6, 7, 8, 9], model_version = Some ''v1''\<rparr>"]
  show ?thesis by (simp add: example_request_def)
qed

end
